theory Spec2Isabelle
  imports Main "HOL-Library.Word"
begin

section \<open>Data of main.go\<close>

text \<open>
  A Go \<^verbatim>\<open>error\<close> value that is not nil; \<^verbatim>\<open>err.Error()\<close> is its message. A possibly nil
  error is a \<open>go_error option\<close>.
\<close>

datatype go_error = GoError string

fun Error :: "go_error \<Rightarrow> string" where
  "Error (GoError msg) = msg"

text \<open>
  \<^verbatim>\<open>type DBConfig struct\<close> (main.go, lines 17 to 28). \<^verbatim>\<open>int\<close> is 64 bits wide, \<^verbatim>\<open>int32\<close>
  32 bits, \<^verbatim>\<open>time.Duration\<close> is an \<^verbatim>\<open>int64\<close>; all are read signed (\<open>sint\<close>).
\<close>

record DBConfig =
  Host :: string
  Port :: "64 word"
  UserName :: string
  Password :: string
  DBName :: string
  MaxConns :: "32 word"
  MinConns :: "32 word"
  MaxConnLifeTime :: "64 word"
  MaxConnIdleTime :: "64 word"
  HealthCheckPeriod :: "64 word"

text \<open>
  \<^verbatim>\<open>pgx.ConnConfig\<close>: the program reads it only through \<^verbatim>\<open>ConnString()\<close>, which gives back
  the string the configuration was parsed from.
\<close>

record ConnConfig =
  ConnString :: string

text \<open>
  \<^verbatim>\<open>pgxpool.Config\<close>: the five fields \<^verbatim>\<open>NewPg\<close> assigns (their names carry the prefix
  \<open>Config_\<close> here, \<^verbatim>\<open>DBConfig\<close> having fields of the same names) and the connection
  configuration inside.
\<close>

record Config =
  Config_ConnConfig :: ConnConfig
  Config_MaxConns :: "32 word"
  Config_MinConns :: "32 word"
  Config_MaxConnLifetime :: "64 word"
  Config_MaxConnIdleTime :: "64 word"
  Config_HealthCheckPeriod :: "64 word"

text \<open>
  A \<^verbatim>\<open>*pgxpool.Pool\<close> is \<open>None\<close> (nil) or \<open>Some p\<close>, \<open>p\<close> the number of the pool among
  those constructed in the process.
\<close>

type_synonym Pool = nat

text \<open>How a call ends: it returns, or it panics with a value.\<close>

datatype panic_value = PanicError go_error | NilDereference

datatype 'a outcome = Returned 'a | Panicked panic_value

section \<open>The libraries, as the program sees them\<close>

text \<open>
  viper, pgx and pgxpool are not part of the repository. What each of their calls returns
  is a parameter of the model: a record of answers, one field per library function the
  program calls. Every theorem below quantifies over this record.
\<close>

type_synonym Conn = nat

type_synonym Rows = nat

text \<open>The local \<^verbatim>\<open>type User struct\<close> of lines 192 to 195.\<close>

record User =
  Id :: int
  Name :: string

text \<open>\<^verbatim>\<open>*pgxpool.Stat\<close>, through its four getters the program calls (each an \<^verbatim>\<open>int32\<close>).\<close>

record Stat =
  TotalConns :: "32 word"
  AcquiredConns :: "32 word"
  IdleConns :: "32 word"
  Stat_MaxConns :: "32 word"

text \<open>\<^verbatim>\<open>pgx.NamedArgs\<close>: the names and their values.\<close>

type_synonym NamedArgs = "(string \<times> int) list"

record lib =
  viper_ReadInConfig :: "string \<Rightarrow> go_error option"
  viper_Unmarshal :: "string \<Rightarrow> go_error + DBConfig"
  pgx_ParseConfig :: "string \<Rightarrow> go_error option"
  pgxpool_ParseConfig :: "string \<Rightarrow> go_error + Config"
  pgxpool_NewWithConfig :: "Config \<Rightarrow> go_error option"
  pgxpool_New :: "string \<Rightarrow> go_error + Config"
  Pool_Ping :: "Pool \<Rightarrow> go_error option"
  Pool_Acquire :: "Pool \<Rightarrow> go_error + Conn"
  Conn_QueryRow_Scan :: "Conn \<Rightarrow> string \<Rightarrow> go_error + int"
  Conn_Query :: "Conn \<Rightarrow> string \<Rightarrow> go_error + Rows"
  pgx_CollectRows :: "Rows \<Rightarrow> go_error + User list"
  Conn_Exec :: "Conn \<Rightarrow> string \<Rightarrow> NamedArgs \<Rightarrow> go_error + int"
  Pool_QueryRow_Scan :: "Pool \<Rightarrow> string \<Rightarrow> go_error + int"
  Pool_Query :: "Pool \<Rightarrow> string \<Rightarrow> go_error + Rows"
  Rows_Next_Scan :: "Rows \<Rightarrow> (go_error + int \<times> string) list"
  Pool_Exec :: "Pool \<Rightarrow> string \<Rightarrow> NamedArgs \<Rightarrow> go_error + int"
  Pool_Stat :: "Pool \<Rightarrow> Stat"

text \<open>
  \<open>Rows_Next_Scan l rows\<close> is what iterating \<open>rows\<close> gives: \<^verbatim>\<open>rows.Next()\<close> is true once
  for every element, and \<^verbatim>\<open>rows.Scan(&id, &name)\<close> then fails or fills the two variables;
  after the last element \<^verbatim>\<open>rows.Next()\<close> is false.

  The calls the program makes that change or observe something outside it, in the order
  it makes them: the library calls on pools, connections and rows, and the log lines.
  \<open>call_Pool_Acquire pool (Some conn)\<close> is an \<^verbatim>\<open>Acquire\<close> that returned the lease
  \<open>conn\<close>, \<open>call_Pool_Acquire pool None\<close> one that returned an error.
\<close>

datatype slog_attr =
    slog_String string string
  | slog_Int string int
  | slog_Int64 string int

datatype call =
    call_pgxpool_ParseConfig string
  | call_pgxpool_NewWithConfig Config
  | call_pgxpool_New string
  | call_Pool_Ping Pool
  | call_Pool_Close Pool
  | call_Pool_Acquire Pool "Conn option"
  | call_Conn_Release Conn
  | call_Conn_QueryRow Conn string
  | call_Conn_Query Conn string
  | call_pgx_CollectRows Rows
  | call_Conn_Exec Conn string NamedArgs
  | call_Pool_QueryRow Pool string
  | call_Pool_Query Pool string
  | call_Rows_Next Rows
  | call_Rows_Scan Rows
  | call_Rows_Close Rows
  | call_Pool_Exec Pool string NamedArgs
  | call_Pool_Stat Pool
  | slog_Error string "slog_attr list"
  | slog_Info string "slog_attr list"

text \<open>
  The state of the process: \<^verbatim>\<open>pgOnce\<close> (has \<^verbatim>\<open>Do\<close> run its function?), the pools
  constructed so far, each with the configuration it was built from, and the calls made.
\<close>

record process =
  pgOnce :: bool
  pools :: "Config list"
  calls :: "call list"

definition emit :: "call \<Rightarrow> process \<Rightarrow> process" where
  "emit c s = s\<lparr>calls := calls s @ [c]\<rparr>"

section \<open>LoadConfig\<close>

text \<open>
  main.go, lines 82 to 100. The result is the pair Go returns: the pointer (\<open>None\<close> is
  nil) and the error (\<open>None\<close> is nil).
\<close>

definition LoadConfig :: "lib \<Rightarrow> string \<Rightarrow> DBConfig option \<times> go_error option" where
  "LoadConfig l configFile =
     (case viper_ReadInConfig l configFile of
        Some err \<Rightarrow> (None, Some err)
      | None \<Rightarrow>
          (case viper_Unmarshal l configFile of
             Inl err \<Rightarrow> (None, Some err)
           | Inr cfg \<Rightarrow> (Some cfg, None)))"

section \<open>Formatting\<close>

text \<open>\<^verbatim>\<open>%d\<close> of \<^verbatim>\<open>fmt.Sprintf\<close>: the decimal digits, a minus sign before a negative number.\<close>

function digits10 :: "nat \<Rightarrow> string" where
  "digits10 n =
     (if n < 10 then [''0123456789'' ! n]
      else digits10 (n div 10) @ [''0123456789'' ! (n mod 10)])"
  by pat_completeness auto
termination
  by (relation "measure id") auto

declare digits10.simps [simp del]

definition format_d :: "int \<Rightarrow> string" where
  "format_d i = (if i < 0 then CHR ''-'' # digits10 (nat (- i)) else digits10 (nat i))"

text \<open>
  \<^verbatim>\<open>strings.TrimSpace\<close>, on the bytes of the string. Its loops stop at the first byte from
  each end that is ASCII and not white space (tab, line feed, vertical tab, form feed,
  carriage return, space). Bytes from 128 on send Go to a slower path that also removes
  Unicode white space; they are kept here. The strings this program trims start with
  the letter u and end with a decimal digit (see \<open>TrimSpace_dsn\<close>), where both agree.
\<close>

definition asciiSpace :: "char \<Rightarrow> bool" where
  "asciiSpace c = (c \<in> set [CHR 0x09, CHR 0x0A, CHR 0x0B, CHR 0x0C, CHR 0x0D, CHR '' ''])"

definition TrimSpace :: "string \<Rightarrow> string" where
  "TrimSpace s = rev (dropWhile asciiSpace (rev (dropWhile asciiSpace s)))"

section \<open>WithPgxConfig, NewPg, NewBasicPg\<close>

text \<open>The connection string of \<^verbatim>\<open>WithPgxConfig\<close> (lines 108 to 111), before it is trimmed.\<close>

definition dsn :: "DBConfig \<Rightarrow> string" where
  "dsn dbConfig =
     ''user='' @ UserName dbConfig @ '' password='' @ Password dbConfig @
     '' dbname='' @ DBName dbConfig @ '' host='' @ Host dbConfig @
     '' port='' @ format_d (sint (Port dbConfig))"

text \<open>
  main.go, lines 106 to 120: a parsing error is logged and then the function panics
  with it.
\<close>

definition WithPgxConfig :: "lib \<Rightarrow> DBConfig \<Rightarrow> ConnConfig outcome" where
  "WithPgxConfig l dbConfig =
     (let connString = TrimSpace (dsn dbConfig) in
      case pgx_ParseConfig l connString of
        Some err \<Rightarrow> Panicked (PanicError err)
      | None \<Rightarrow> Returned \<lparr>ConnString = connString\<rparr>)"

text \<open>
  \<^verbatim>\<open>pgOnce.Do(func() { db, err = pgxpool.NewWithConfig(ctx, config) })\<close>, lines 139 to 142:
  the function runs only when \<^verbatim>\<open>pgOnce\<close> has not run one before; otherwise \<^verbatim>\<open>db\<close> keeps
  the nil it was declared with. The result is \<^verbatim>\<open>db\<close>.
\<close>

definition pgOnce_Do :: "lib \<Rightarrow> Config \<Rightarrow> process \<Rightarrow> Pool option \<times> process" where
  "pgOnce_Do l config s =
     (if pgOnce s then (None, s)
      else
        (let s1 = emit (call_pgxpool_NewWithConfig config) (s\<lparr>pgOnce := True\<rparr>) in
         case pgxpool_NewWithConfig l config of
           Some err \<Rightarrow> (None, s1)
         | None \<Rightarrow> (Some (length (pools s1)), s1\<lparr>pools := pools s1 @ [config]\<rparr>)))"

text \<open>
  main.go, lines 123 to 152. \<^verbatim>\<open>db.Ping(ctx)\<close> on a nil \<^verbatim>\<open>db\<close> reads the fields of the pool
  through the nil pointer: it panics.
\<close>

definition apply_pool_settings :: "DBConfig \<Rightarrow> Config \<Rightarrow> Config" where
  "apply_pool_settings dbConfig config =
     config\<lparr>Config_MaxConns := MaxConns dbConfig,
            Config_MinConns := MinConns dbConfig,
            Config_MaxConnLifetime := MaxConnLifeTime dbConfig,
            Config_MaxConnIdleTime := MaxConnIdleTime dbConfig,
            Config_HealthCheckPeriod := HealthCheckPeriod dbConfig\<rparr>"

definition NewPg ::
  "lib \<Rightarrow> DBConfig \<Rightarrow> ConnConfig \<Rightarrow> process \<Rightarrow> (Pool option \<times> go_error option) outcome \<times> process"
where
  "NewPg l dbConfig pgxConfig s =
     (let s1 = emit (call_pgxpool_ParseConfig (ConnString pgxConfig)) s in
      case pgxpool_ParseConfig l (ConnString pgxConfig) of
        Inl err \<Rightarrow>
          (Returned (None, Some err),
           emit (slog_Error ''Error parsing pool config'' [slog_String ''error'' (Error err)]) s1)
      | Inr parsed \<Rightarrow>
          (let config = apply_pool_settings dbConfig parsed;
               (db, s2) = pgOnce_Do l config s1
           in case db of
                None \<Rightarrow> (Panicked NilDereference, s2)
              | Some p \<Rightarrow>
                  (let s3 = emit (call_Pool_Ping p) s2 in
                   case Pool_Ping l p of
                     Some err \<Rightarrow>
                       (Returned (None, Some err),
                        emit (slog_Error ''Unable to ping database''
                                [slog_String ''error'' (Error err)]) s3)
                   | None \<Rightarrow>
                       (Returned (Some p, None),
                        emit (slog_Info ''Successfully connected to database'' []) s3))))"

text \<open>
  main.go, lines 154 to 173: the URL form of the connection string, \<^verbatim>\<open>pgxpool.New\<close> and a
  ping. \<^verbatim>\<open>pgOnce\<close> is not used. \<^verbatim>\<open>%w\<close> formats the error as \<^verbatim>\<open>%v\<close> does.
\<close>

definition url :: "DBConfig \<Rightarrow> string" where
  "url dbConfig =
     ''postgresql://'' @ UserName dbConfig @ '':'' @ Password dbConfig @ ''@'' @
     Host dbConfig @ '':'' @ format_d (sint (Port dbConfig)) @ ''/'' @ DBName dbConfig"

definition Errorf :: "string \<Rightarrow> go_error \<Rightarrow> go_error" where
  "Errorf prefix err = GoError (prefix @ Error err)"

definition NewBasicPg ::
  "lib \<Rightarrow> DBConfig \<Rightarrow> process \<Rightarrow> (Pool option \<times> go_error option) \<times> process"
where
  "NewBasicPg l dbConfig s =
     (let connString = url dbConfig;
          s1 = emit (call_pgxpool_New connString) s in
      case pgxpool_New l connString of
        Inl err \<Rightarrow>
          ((None, Some err),
           emit (slog_Error ''Unable to create connection pool''
                   [slog_String ''error'' (Error err)]) s1)
      | Inr config \<Rightarrow>
          (let pool = length (pools s1);
               s2 = emit (call_Pool_Ping pool) (s1\<lparr>pools := pools s1 @ [config]\<rparr>) in
           case Pool_Ping l pool of
             Some err \<Rightarrow> ((None, Some (Errorf ''unable to ping database: '' err)), s2)
           | None \<Rightarrow>
               ((Some pool, None),
                emit (slog_Info ''Successfully connected to database'' []) s2)))"

section \<open>The two access styles and the monitor\<close>

text \<open>\<^verbatim>\<open>type App struct\<close>: the pool pointer, \<open>None\<close> when nil.\<close>

record App =
  DBClient :: "Pool option"

text \<open>
  The functions below touch no variable of the package; each gives what it returns and
  the calls it makes, in order. A \<^verbatim>\<open>defer\<close> puts a call on a stack that runs, last
  deferred first, when the function returns.
\<close>

definition log_user :: "User \<Rightarrow> call" where
  "log_user user =
     slog_Info ''User retrieved'' [slog_Int ''id'' (Id user), slog_String ''name'' (Name user)]"

text \<open>main.go, lines 175 to 220.\<close>

definition DoExplicitConnectionOperations ::
  "lib \<Rightarrow> App \<Rightarrow> go_error option outcome \<times> call list"
where
  "DoExplicitConnectionOperations l app =
     (case DBClient app of
        None \<Rightarrow> (Panicked NilDereference, [])
      | Some pool \<Rightarrow>
     (case Pool_Acquire l pool of
        Inl err \<Rightarrow>
          (Returned (Some (Errorf ''error acquiring connection: '' err)),
           [call_Pool_Acquire pool None])
      | Inr conn \<Rightarrow>
     (let deferred = [call_Conn_Release conn];
          t1 = [call_Pool_Acquire pool (Some conn),
                call_Conn_QueryRow conn ''SELECT COUNT(*) FROM users''] in
      case Conn_QueryRow_Scan l conn ''SELECT COUNT(*) FROM users'' of
        Inl err \<Rightarrow> (Returned (Some (Errorf ''error counting users: '' err)), t1 @ deferred)
      | Inr userCount \<Rightarrow>
     (let t2 = t1 @ [slog_Info ''User count'' [slog_Int ''count'' userCount],
                     call_Conn_Query conn ''SELECT id, name FROM users''] in
      case Conn_Query l conn ''SELECT id, name FROM users'' of
        Inl err \<Rightarrow> (Returned (Some (Errorf ''error querying users: '' err)), t2 @ deferred)
      | Inr rows \<Rightarrow>
     (let t3 = t2 @ [call_pgx_CollectRows rows] in
      case pgx_CollectRows l rows of
        Inl err \<Rightarrow> (Returned (Some (Errorf ''error reading rows: '' err)), t3 @ deferred)
      | Inr users \<Rightarrow>
     (let deferred' = call_Rows_Close rows # deferred;
          args = [(''id'', 1)];
          t4 = t3 @ map log_user users @
               [call_Conn_Exec conn ''UPDATE users SET last_login = NOW() WHERE id = @id'' args]
      in
      case Conn_Exec l conn ''UPDATE users SET last_login = NOW() WHERE id = @id'' args of
        Inl err \<Rightarrow> (Returned (Some (Errorf ''error updating user: '' err)), t4 @ deferred')
      | Inr rowsAffected \<Rightarrow>
          (Returned None,
           t4 @ [slog_Info ''Rows affected'' [slog_Int64 ''rows_affected'' rowsAffected]] @
           deferred')))))))"

text \<open>
  The loop of lines 238 to 248 over what the rows give: the error of a failed
  \<^verbatim>\<open>rows.Scan\<close> (the function returns from inside the loop), or none when
  \<^verbatim>\<open>rows.Next()\<close> has become false.
\<close>

fun scan_loop :: "Rows \<Rightarrow> (go_error + int \<times> string) list \<Rightarrow> go_error option \<times> call list" where
  "scan_loop rows [] = (None, [call_Rows_Next rows])"
| "scan_loop rows (Inl err # rest) = (Some err, [call_Rows_Next rows, call_Rows_Scan rows])"
| "scan_loop rows (Inr (id', name) # rest) =
     (case scan_loop rows rest of
        (r, t) \<Rightarrow>
          (r, [call_Rows_Next rows, call_Rows_Scan rows,
               slog_Info ''User retrieved'' [slog_Int ''id'' id', slog_String ''name'' name]] @ t))"

text \<open>
  main.go, lines 222 to 260. \<^verbatim>\<open>defer rows.Close()\<close> stands after the loop: a return from
  inside the loop has not deferred it.
\<close>

definition DoDirectPoolOperations ::
  "lib \<Rightarrow> App \<Rightarrow> go_error option outcome \<times> call list"
where
  "DoDirectPoolOperations l app =
     (case DBClient app of
        None \<Rightarrow> (Panicked NilDereference, [])
      | Some pool \<Rightarrow>
     (let t1 = [call_Pool_QueryRow pool ''SELECT COUNT(*) FROM users''] in
      case Pool_QueryRow_Scan l pool ''SELECT COUNT(*) FROM users'' of
        Inl err \<Rightarrow> (Returned (Some (Errorf ''error executing query: '' err)), t1)
      | Inr userCount \<Rightarrow>
     (let t2 = t1 @ [slog_Info ''User count'' [slog_Int ''count'' userCount],
                     call_Pool_Query pool ''SELECT id, name FROM users''] in
      case Pool_Query l pool ''SELECT id, name FROM users'' of
        Inl err \<Rightarrow> (Returned (Some (Errorf ''error querying users: '' err)), t2)
      | Inr rows \<Rightarrow>
     (case scan_loop rows (Rows_Next_Scan l rows) of
        (Some err, t) \<Rightarrow> (Returned (Some (Errorf ''error reading user: '' err)), t2 @ t)
      | (None, t) \<Rightarrow>
     (let deferred = [call_Rows_Close rows];
          args = [(''id'', 1)];
          t3 = t2 @ t @
               [call_Pool_Exec pool ''UPDATE users SET last_login = NOW() WHERE id = @id'' args]
      in
      case Pool_Exec l pool ''UPDATE users SET last_login = NOW() WHERE id = @id'' args of
        Inl err \<Rightarrow> (Returned (Some (Errorf ''error updating user: '' err)), t3 @ deferred)
      | Inr rowsAffected \<Rightarrow>
          (Returned None,
           t3 @ [slog_Info ''Rows affected'' [slog_Int64 ''rows_affected'' rowsAffected]] @
           deferred))))))"

text \<open>main.go, lines 262 to 271: one \<^verbatim>\<open>Stat()\<close>, then the four getters of that value.\<close>

definition monitorPoolStats :: "lib \<Rightarrow> App \<Rightarrow> unit outcome \<times> call list" where
  "monitorPoolStats l app =
     (case DBClient app of
        None \<Rightarrow> (Panicked NilDereference, [])
      | Some pool \<Rightarrow>
          (let stats = Pool_Stat l pool in
           (Returned (),
            [call_Pool_Stat pool,
             slog_Info ''Pool stats''
               [slog_Int ''total_connections'' (sint (TotalConns stats)),
                slog_Int ''acquired_connections'' (sint (AcquiredConns stats)),
                slog_Int ''idle_connections'' (sint (IdleConns stats)),
                slog_Int ''max_connections'' (sint (Stat_MaxConns stats))]])))"

section \<open>What the calls leave behind\<close>

text \<open>The pools of the process that no \<^verbatim>\<open>Close\<close> was called on.\<close>

definition open_pools :: "process \<Rightarrow> Pool list" where
  "open_pools s = filter (\<lambda>p. call_Pool_Close p \<notin> set (calls s)) [0..<length (pools s)]"

text \<open>
  The leases still held after a sequence of calls: an \<^verbatim>\<open>Acquire\<close> that returned a lease
  adds it, \<^verbatim>\<open>Release\<close> takes it away.
\<close>

fun leases_held :: "Conn list \<Rightarrow> call list \<Rightarrow> Conn list" where
  "leases_held held [] = held"
| "leases_held held (call_Pool_Acquire pool (Some conn) # t) = leases_held (conn # held) t"
| "leases_held held (call_Conn_Release conn # t) = leases_held (remove1 conn held) t"
| "leases_held held (c # t) = leases_held held t"

section \<open>Inputs for the examples\<close>

text \<open>
  The configuration of \<^verbatim>\<open>main\<close> (lines 44 to 48; durations in nanoseconds) for a local
  database, the configuration \<^verbatim>\<open>pgxpool.ParseConfig\<close> starts from, and two libraries: one
  whose every call succeeds, and the same with a database that does not answer the ping.
\<close>

definition main_dbConfig :: DBConfig where
  "main_dbConfig =
     \<lparr>Host = ''localhost'', Port = 5432, UserName = ''postgres'', Password = ''secret'',
      DBName = ''app'', MaxConns = 10, MinConns = 2, MaxConnLifeTime = 1800000000000,
      MaxConnIdleTime = 600000000000, HealthCheckPeriod = 120000000000\<rparr>"

definition parsed_defaults :: "string \<Rightarrow> Config" where
  "parsed_defaults connString =
     \<lparr>Config_ConnConfig = \<lparr>ConnString = connString\<rparr>, Config_MaxConns = 4,
      Config_MinConns = 0, Config_MaxConnLifetime = 3600000000000,
      Config_MaxConnIdleTime = 1800000000000, Config_HealthCheckPeriod = 60000000000\<rparr>"

definition healthy_lib :: lib where
  "healthy_lib =
     \<lparr>viper_ReadInConfig = (\<lambda>_. None),
      viper_Unmarshal = (\<lambda>_. Inr main_dbConfig),
      pgx_ParseConfig = (\<lambda>_. None),
      pgxpool_ParseConfig = (\<lambda>connString. Inr (parsed_defaults connString)),
      pgxpool_NewWithConfig = (\<lambda>_. None),
      pgxpool_New = (\<lambda>connString. Inr (parsed_defaults connString)),
      Pool_Ping = (\<lambda>_. None),
      Pool_Acquire = (\<lambda>_. Inr 7),
      Conn_QueryRow_Scan = (\<lambda>_ _. Inr 2),
      Conn_Query = (\<lambda>_ _. Inr 3),
      pgx_CollectRows = (\<lambda>_. Inr [\<lparr>Id = 1, Name = ''ann''\<rparr>, \<lparr>Id = 2, Name = ''bob''\<rparr>]),
      Conn_Exec = (\<lambda>_ _ _. Inr 1),
      Pool_QueryRow_Scan = (\<lambda>_ _. Inr 2),
      Pool_Query = (\<lambda>_ _. Inr 3),
      Rows_Next_Scan = (\<lambda>_. [Inr (1, ''ann''), Inr (2, ''bob'')]),
      Pool_Exec = (\<lambda>_ _ _. Inr 1),
      Pool_Stat = (\<lambda>_. \<lparr>TotalConns = 2, AcquiredConns = 0, IdleConns = 2, Stat_MaxConns = 10\<rparr>)\<rparr>"

definition unreachable_lib :: lib where
  "unreachable_lib = healthy_lib\<lparr>Pool_Ping := (\<lambda>_. Some (GoError ''connection refused''))\<rparr>"

definition fresh_process :: process where
  "fresh_process = \<lparr>pgOnce = False, pools = [], calls = []\<rparr>"

definition inverted_dbConfig :: DBConfig where
  "inverted_dbConfig = main_dbConfig\<lparr>MaxConns := 2, MinConns := 5\<rparr>"

definition rejecting_lib :: lib where
  "rejecting_lib = healthy_lib\<lparr>pgxpool_ParseConfig := (\<lambda>_. Inl (GoError ''cannot parse''))\<rparr>"

definition main_App :: App where
  "main_App = \<lparr>DBClient = Some 0\<rparr>"

section \<open>The connection target in the two connection strings\<close>















section \<open>The pool of the specification\<close>

text \<open>
  Modelled from the spec: the Pool and its operations Acquire, Release, Query/Exec, Stat
  and Close (sections 3 and 4.1 of the specification). The program takes them from
  pgxpool, which is not part of the repository; main.go only calls them. The definitions
  of this section follow the words of the specification, not code.

  A pool has the four counters its statistics show, and is closed or not.
\<close>

datatype spec_error = ConfigError | ConnectionError | TimeoutError | ClosedError

record PoolState =
  total_conns :: nat
  acquired_conns :: nat
  idle_conns :: nat
  max_conns :: nat
  closed :: bool

text \<open>
  Modelled from the spec: Acquire takes an idle connection, or creates one when the
  bound allows it (a ConnectionError when it cannot be established: \<open>connects\<close> is
  whether the network lets it); with neither it waits, and its deadline ends the wait
  with a TimeoutError. On a closed pool it fails with a ClosedError.
\<close>

definition spec_Acquire :: "bool \<Rightarrow> PoolState \<Rightarrow> spec_error + PoolState" where
  "spec_Acquire connects p =
     (if closed p then Inl ClosedError
      else if 0 < idle_conns p then
        Inr (p\<lparr>idle_conns := idle_conns p - 1, acquired_conns := acquired_conns p + 1\<rparr>)
      else if total_conns p < max_conns p then
        (if connects then
           Inr (p\<lparr>total_conns := total_conns p + 1, acquired_conns := acquired_conns p + 1\<rparr>)
         else Inl ConnectionError)
      else Inl TimeoutError)"

text \<open>
  Modelled from the spec: Release returns the lease to the pool; a release with no
  lease out (a double release) is guarded against and changes nothing, as does the
  release of a lease that Close has made invalid.
\<close>

definition spec_Release :: "PoolState \<Rightarrow> PoolState" where
  "spec_Release p =
     (if closed p \<or> acquired_conns p = 0 then p
      else p\<lparr>acquired_conns := acquired_conns p - 1, idle_conns := idle_conns p + 1\<rparr>)"

text \<open>Modelled from the spec: Query and Exec on the pool are Acquire, use, Release.\<close>

definition spec_Query :: "bool \<Rightarrow> PoolState \<Rightarrow> spec_error + PoolState" where
  "spec_Query connects p =
     (case spec_Acquire connects p of
        Inl e \<Rightarrow> Inl e
      | Inr p' \<Rightarrow> Inr (spec_Release p'))"

text \<open>Modelled from the spec: Close releases every connection of the pool.\<close>

definition spec_Close :: "PoolState \<Rightarrow> PoolState" where
  "spec_Close p = p\<lparr>total_conns := 0, acquired_conns := 0, idle_conns := 0, closed := True\<rparr>"

text \<open>
  Modelled from the spec: the operations on a pool, and the pool after one of them
  (\<open>connects\<close> as above). An operation that fails leaves the pool as it was.
\<close>

datatype pool_op = op_Acquire | op_Release | op_Query | op_Exec | op_Stat | op_Close

fun keep :: "PoolState \<Rightarrow> spec_error + PoolState \<Rightarrow> PoolState" where
  "keep p (Inl e) = p"
| "keep p (Inr p') = p'"

fun spec_step :: "PoolState \<Rightarrow> bool \<times> pool_op \<Rightarrow> PoolState" where
  "spec_step p (connects, op_Acquire) = keep p (spec_Acquire connects p)"
| "spec_step p (connects, op_Release) = spec_Release p"
| "spec_step p (connects, op_Query) = keep p (spec_Query connects p)"
| "spec_step p (connects, op_Exec) = keep p (spec_Query connects p)"
| "spec_step p (connects, op_Stat) = p"
| "spec_step p (connects, op_Close) = spec_Close p"

text \<open>
  Modelled from the spec: the operation of the specification that a call of the program
  on its pool asks for. The calls on a lease or on rows and the log lines ask for none;
  an \<^verbatim>\<open>Acquire\<close> that returned an error has changed nothing.
\<close>

fun pool_ops :: "call list \<Rightarrow> pool_op list" where
  "pool_ops [] = []"
| "pool_ops (call_Pool_Acquire pool (Some conn) # t) = op_Acquire # pool_ops t"
| "pool_ops (call_Conn_Release conn # t) = op_Release # pool_ops t"
| "pool_ops (call_Pool_QueryRow pool sql # t) = op_Query # pool_ops t"
| "pool_ops (call_Pool_Query pool sql # t) = op_Query # pool_ops t"
| "pool_ops (call_Pool_Exec pool sql args # t) = op_Exec # pool_ops t"
| "pool_ops (call_Pool_Stat pool # t) = op_Stat # pool_ops t"
| "pool_ops (call_Pool_Close pool # t) = op_Close # pool_ops t"
| "pool_ops (c # t) = pool_ops t"

text \<open>A pool with every connection leased: an Acquire on it waits.\<close>

definition exhausted_pool :: PoolState where
  "exhausted_pool =
     \<lparr>total_conns = 10, acquired_conns = 10, idle_conns = 0, max_conns = 10, closed = False\<rparr>"

section \<open>Lemmas on the formatting\<close>

lemma digit_eq: "n < 10 \<Longrightarrow> m < 10 \<Longrightarrow> (''0123456789'' ! n = ''0123456789'' ! m) = (n = m)"
  by (rule nth_eq_iff_index_eq) simp_all

lemma digit_mem: "n < 10 \<Longrightarrow> ''0123456789'' ! n \<in> set ''0123456789''"
  by (rule nth_mem) simp

lemma digits10_not_Nil: "digits10 n \<noteq> []"
  by (subst digits10.simps) simp

lemma digits10_chars: "set (digits10 n) \<subseteq> set ''0123456789''"
proof (induction n rule: digits10.induct)
  case (1 n)
  show ?case
  proof (cases "n < 10")
    case True
    have "digits10 n = [''0123456789'' ! n]"
      using True by (subst digits10.simps) simp
    with digit_mem [OF True] show ?thesis by simp
  next
    case False
    have "digits10 n = digits10 (n div 10) @ [''0123456789'' ! (n mod 10)]"
      using False by (subst digits10.simps) simp
    moreover have "''0123456789'' ! (n mod 10) \<in> set ''0123456789''"
      by (rule digit_mem) simp
    moreover note "1.IH" [OF False]
    ultimately show ?thesis by simp
  qed
qed

text \<open>Two numbers with the same digits are the same number.\<close>

lemma digits10_inj: "digits10 n = digits10 m \<Longrightarrow> n = m"
proof (induction n arbitrary: m rule: digits10.induct)
  case (1 n)
  have dn: "digits10 n = (if n < 10 then [''0123456789'' ! n]
      else digits10 (n div 10) @ [''0123456789'' ! (n mod 10)])"
    by (rule digits10.simps)
  have dm: "digits10 m = (if m < 10 then [''0123456789'' ! m]
      else digits10 (m div 10) @ [''0123456789'' ! (m mod 10)])"
    by (rule digits10.simps)
  show ?case
  proof (cases "n < 10")
    case n: True
    show ?thesis
    proof (cases "m < 10")
      case True
      with n "1.prems" dn dm show ?thesis by (simp add: digit_eq)
    next
      case False
      with n "1.prems" dn dm digits10_not_Nil [of "m div 10"] show ?thesis by simp
    qed
  next
    case n: False
    show ?thesis
    proof (cases "m < 10")
      case True
      with n "1.prems" dn dm digits10_not_Nil [of "n div 10"] show ?thesis by simp
    next
      case False
      with n "1.prems" dn dm have
        a: "digits10 (n div 10) = digits10 (m div 10)" and
        b: "''0123456789'' ! (n mod 10) = ''0123456789'' ! (m mod 10)"
        by simp_all
      from "1.IH" [OF n a] have "n div 10 = m div 10" .
      moreover from b have "n mod 10 = m mod 10" by (simp add: digit_eq)
      ultimately show ?thesis by (metis div_mult_mod_eq)
    qed
  qed
qed

lemma digits10_no: "c \<notin> set ''0123456789'' \<Longrightarrow> c \<notin> set (digits10 n)"
  using digits10_chars by blast

lemma format_d_no:
  "c \<notin> set ''0123456789'' \<Longrightarrow> c \<noteq> CHR ''-'' \<Longrightarrow> c \<notin> set (format_d i)"
  by (simp add: format_d_def digits10_no)

lemma digits10_no_dash: "digits10 n \<noteq> CHR ''-'' # t"
proof
  assume "digits10 n = CHR ''-'' # t"
  then have "CHR ''-'' \<in> set (digits10 n)" by simp
  moreover have "CHR ''-'' \<notin> set (digits10 n)" by (rule digits10_no) simp
  ultimately show False by simp
qed

lemma format_d_inj: "format_d i = format_d j \<Longrightarrow> i = j"
proof -
  assume eq: "format_d i = format_d j"
  show ?thesis
  proof (cases "i < 0")
    case i: True
    show ?thesis
    proof (cases "j < 0")
      case True
      with i eq have "digits10 (nat (- i)) = digits10 (nat (- j))" by (simp add: format_d_def)
      then have "nat (- i) = nat (- j)" by (rule digits10_inj)
      with i True show ?thesis by simp
    next
      case False
      with i eq have "digits10 (nat j) = CHR ''-'' # digits10 (nat (- i))"
        by (simp add: format_d_def)
      with digits10_no_dash show ?thesis by blast
    qed
  next
    case i: False
    show ?thesis
    proof (cases "j < 0")
      case True
      with i eq have "digits10 (nat i) = CHR ''-'' # digits10 (nat (- j))"
        by (simp add: format_d_def)
      with digits10_no_dash show ?thesis by blast
    next
      case False
      with i eq have "digits10 (nat i) = digits10 (nat j)" by (simp add: format_d_def)
      then have "nat i = nat j" by (rule digits10_inj)
      with i False show ?thesis by simp
    qed
  qed
qed

lemma format_d_Port_inj:
  "format_d (sint (a :: 64 word)) = format_d (sint b) \<Longrightarrow> a = b"
  by (drule format_d_inj) (rule signed_word_eqI)

text \<open>The last byte of a formatted number is a digit, so not white space.\<close>

lemma format_d_last: "\<exists>xs c. format_d i = xs @ [c] \<and> \<not> asciiSpace c"
proof -
  have "format_d i \<noteq> []"
    by (simp add: format_d_def digits10_not_Nil)
  then obtain xs c where snoc: "format_d i = xs @ [c]"
    by (metis rev_exhaust)
  have "\<not> asciiSpace c"
  proof
    assume "asciiSpace c"
    then have "c \<notin> set (format_d i)"
      by (intro format_d_no) (auto simp: asciiSpace_def)
    with snoc show False by simp
  qed
  with snoc show ?thesis by blast
qed

text \<open>
  \<^verbatim>\<open>strings.TrimSpace\<close> removes nothing from the string of \<^verbatim>\<open>WithPgxConfig\<close>: it starts
  with the letter u and ends with the last digit of the port.
\<close>

lemma TrimSpace_dsn: "TrimSpace (dsn d) = dsn d"
proof -
  obtain xs c where a: "format_d (sint (Port d)) = xs @ [c]" "\<not> asciiSpace c"
    using format_d_last by blast
  have front: "dropWhile asciiSpace (dsn d) = dsn d"
    by (simp add: dsn_def asciiSpace_def)
  obtain ys where ys: "dsn d = ys @ [c]"
    using a(1) by (simp add: dsn_def)
  then have "dropWhile asciiSpace (rev (dsn d)) = rev (dsn d)"
    using a(2) by simp
  then show ?thesis by (simp add: TrimSpace_def front)
qed

lemma WithPgxConfig_Returned:
  "WithPgxConfig l d = Returned pc \<Longrightarrow> ConnString pc = dsn d"
  by (auto simp: WithPgxConfig_def TrimSpace_dsn Let_def split: option.splits)

section \<open>Lemmas on NewPg\<close>

lemma pgOnce_emit [simp]: "pgOnce (emit c s) = pgOnce s"
  by (simp add: emit_def)

lemma pools_emit [simp]: "pools (emit c s) = pools s"
  by (simp add: emit_def)

lemma calls_emit [simp]: "calls (emit c s) = calls s @ [c]"
  by (simp add: emit_def)

lemma pgOnce_Do_done: "pgOnce s \<Longrightarrow> pgOnce_Do l config s = (None, s)"
  by (simp add: pgOnce_Do_def)

lemma pgOnce_after_Do: "pgOnce_Do l config s = (db, s') \<Longrightarrow> pgOnce s'"
  by (auto simp: pgOnce_Do_def Let_def split: option.splits if_splits)

lemma pgOnce_Do_fresh:
  "\<not> pgOnce s \<Longrightarrow> pgxpool_NewWithConfig l config = None \<Longrightarrow>
   pgOnce_Do l config s =
     (Some (length (pools s)),
      s\<lparr>pgOnce := True, calls := calls s @ [call_pgxpool_NewWithConfig config],
        pools := pools s @ [config]\<rparr>)"
  by (simp add: pgOnce_Do_def emit_def)

text \<open>A call that returned a pool has run the function of \<^verbatim>\<open>pgOnce\<close>.\<close>

lemma NewPg_pool_sets_pgOnce:
  "fst (NewPg l d pc s) = Returned (Some p, e) \<Longrightarrow> pgOnce (snd (NewPg l d pc s))"
  by (auto simp: NewPg_def Let_def split: sum.splits option.splits prod.splits
           dest: pgOnce_after_Do)

text \<open>Once \<^verbatim>\<open>pgOnce\<close> has run, \<^verbatim>\<open>db\<close> stays nil and \<^verbatim>\<open>db.Ping\<close> panics.\<close>

lemma NewPg_when_done:
  "pgOnce s \<Longrightarrow> fst (NewPg l d pc s) =
     (case pgxpool_ParseConfig l (ConnString pc) of
        Inl err \<Rightarrow> Returned (None, Some err) | Inr parsed \<Rightarrow> Panicked NilDereference)"
  by (simp add: NewPg_def Let_def pgOnce_Do_done split: sum.splits)

text \<open>The three ways a first call ends when the pool is constructed or parsing fails.\<close>

lemma NewPg_ping_fails:
  assumes "\<not> pgOnce s"
    and "pgxpool_ParseConfig l (ConnString pc) = Inr parsed"
    and "pgxpool_NewWithConfig l (apply_pool_settings d parsed) = None"
    and "Pool_Ping l (length (pools s)) = Some err"
  shows "NewPg l d pc s =
           (Returned (None, Some err),
            s\<lparr>pgOnce := True,
              calls := calls s @
                [call_pgxpool_ParseConfig (ConnString pc),
                 call_pgxpool_NewWithConfig (apply_pool_settings d parsed),
                 call_Pool_Ping (length (pools s)),
                 slog_Error ''Unable to ping database'' [slog_String ''error'' (Error err)]],
              pools := pools s @ [apply_pool_settings d parsed]\<rparr>)"
  using assms by (simp add: NewPg_def Let_def pgOnce_Do_fresh emit_def)

lemma NewPg_ping_ok:
  assumes "\<not> pgOnce s"
    and "pgxpool_ParseConfig l (ConnString pc) = Inr parsed"
    and "pgxpool_NewWithConfig l (apply_pool_settings d parsed) = None"
    and "Pool_Ping l (length (pools s)) = None"
  shows "NewPg l d pc s =
           (Returned (Some (length (pools s)), None),
            s\<lparr>pgOnce := True,
              calls := calls s @
                [call_pgxpool_ParseConfig (ConnString pc),
                 call_pgxpool_NewWithConfig (apply_pool_settings d parsed),
                 call_Pool_Ping (length (pools s)),
                 slog_Info ''Successfully connected to database'' []],
              pools := pools s @ [apply_pool_settings d parsed]\<rparr>)"
  using assms by (simp add: NewPg_def Let_def pgOnce_Do_fresh emit_def)

lemma NewPg_parse_fails:
  assumes "pgxpool_ParseConfig l (ConnString pc) = Inl err"
  shows "NewPg l d pc s =
           (Returned (None, Some err),
            s\<lparr>calls := calls s @
                [call_pgxpool_ParseConfig (ConnString pc),
                 slog_Error ''Error parsing pool config'' [slog_String ''error'' (Error err)]]\<rparr>)"
  using assms by (simp add: NewPg_def Let_def emit_def)

lemma NewPg_calls_fresh:
  assumes "\<not> pgOnce s" and "pgxpool_ParseConfig l (ConnString pc) = Inr parsed"
  shows "\<exists>rest. calls (snd (NewPg l d pc s)) =
           calls s @ call_pgxpool_ParseConfig (ConnString pc) #
             call_pgxpool_NewWithConfig (apply_pool_settings d parsed) # rest"
  using assms
  by (auto simp: NewPg_def Let_def pgOnce_Do_def emit_def split: option.splits)

text \<open>The fixtures, evaluated.\<close>

lemma healthy_first_call:
  "NewPg healthy_lib d \<lparr>ConnString = cs\<rparr> fresh_process =
     (Returned (Some 0, None),
      \<lparr>pgOnce = True, pools = [apply_pool_settings d (parsed_defaults cs)],
       calls = [call_pgxpool_ParseConfig cs,
                call_pgxpool_NewWithConfig (apply_pool_settings d (parsed_defaults cs)),
                call_Pool_Ping 0,
                slog_Info ''Successfully connected to database'' []]\<rparr>)"
  by (simp add: NewPg_def healthy_lib_def fresh_process_def pgOnce_Do_def Let_def emit_def)

lemma unreachable_first_call:
  "NewPg unreachable_lib d \<lparr>ConnString = cs\<rparr> fresh_process =
     (Returned (None, Some (GoError ''connection refused'')),
      \<lparr>pgOnce = True, pools = [apply_pool_settings d (parsed_defaults cs)],
       calls = [call_pgxpool_ParseConfig cs,
                call_pgxpool_NewWithConfig (apply_pool_settings d (parsed_defaults cs)),
                call_Pool_Ping 0,
                slog_Error ''Unable to ping database''
                  [slog_String ''error'' ''connection refused'']]\<rparr>)"
  by (simp add: NewPg_def unreachable_lib_def healthy_lib_def fresh_process_def pgOnce_Do_def
      Let_def emit_def)

section \<open>Theorems\<close>

subsection \<open>NewPg\<close>

text \<open>
  C1. The claim: once a call of \<^verbatim>\<open>NewPg\<close> has constructed the pool, every later call in
  the process returns that pool. The code does not: \<^verbatim>\<open>db\<close> is a variable of the call, the
  function given to \<^verbatim>\<open>pgOnce.Do\<close> is the only place that sets it, and nothing keeps the
  pool between calls. After a call that returned a pool, every further call (with any
  configuration, whatever the libraries answer) returns the parsing error or panics on
  the nil \<^verbatim>\<open>db\<close>; none returns a pool.
\<close>

theorem NewPg_second_call_returns_no_pool:
  assumes "fst (NewPg l d pc s) = Returned (Some p, None)"
  shows "fst (NewPg l' d' pc' (snd (NewPg l d pc s))) =
           (case pgxpool_ParseConfig l' (ConnString pc') of
              Inl err \<Rightarrow> Returned (None, Some err)
            | Inr parsed \<Rightarrow> Panicked NilDereference)"
  using NewPg_pool_sets_pgOnce [OF assms] by (rule NewPg_when_done)

theorem NewPg_second_call_witness:
  "fst (NewPg healthy_lib main_dbConfig \<lparr>ConnString = dsn main_dbConfig\<rparr> fresh_process) =
     Returned (Some 0, None) \<and>
   fst (NewPg healthy_lib main_dbConfig \<lparr>ConnString = dsn main_dbConfig\<rparr>
          (snd (NewPg healthy_lib main_dbConfig \<lparr>ConnString = dsn main_dbConfig\<rparr>
                  fresh_process))) =
     Panicked NilDereference"
proof -
  have first:
    "fst (NewPg healthy_lib main_dbConfig \<lparr>ConnString = dsn main_dbConfig\<rparr> fresh_process) =
       Returned (Some 0, None)"
    by (simp add: healthy_first_call)
  have "pgxpool_ParseConfig healthy_lib (ConnString \<lparr>ConnString = dsn main_dbConfig\<rparr>) =
          Inr (parsed_defaults (dsn main_dbConfig))"
    by (simp add: healthy_lib_def)
  with NewPg_second_call_returns_no_pool [OF first, of healthy_lib main_dbConfig
      "\<lparr>ConnString = dsn main_dbConfig\<rparr>"] first
  show ?thesis by simp
qed

text \<open>
  C2, as amended. The claim: when the pool is built and the ping fails, \<^verbatim>\<open>NewPg\<close> returns
  an error and has closed the pool before. The code returns the error of the ping and a
  nil pool, and calls no \<^verbatim>\<open>Close\<close>: the pool it built stays among the pools of the
  process, open.
\<close>

theorem NewPg_ping_failure_leaves_pool_open:
  assumes "\<not> pgOnce s"
    and "pgxpool_ParseConfig l (ConnString pc) = Inr parsed"
    and "pgxpool_NewWithConfig l (apply_pool_settings d parsed) = None"
    and "Pool_Ping l (length (pools s)) = Some err"
    and "call_Pool_Close (length (pools s)) \<notin> set (calls s)"
  shows "fst (NewPg l d pc s) = Returned (None, Some err) \<and>
         pools (snd (NewPg l d pc s)) = pools s @ [apply_pool_settings d parsed] \<and>
         length (pools s) \<in> set (open_pools (snd (NewPg l d pc s)))"
  using assms(5) by (simp add: NewPg_ping_fails [OF assms(1-4)] open_pools_def)

theorem NewPg_ping_failure_witness:
  "\<not> pgOnce fresh_process \<and>
   pgxpool_ParseConfig unreachable_lib (dsn main_dbConfig) =
     Inr (parsed_defaults (dsn main_dbConfig)) \<and>
   pgxpool_NewWithConfig unreachable_lib
     (apply_pool_settings main_dbConfig (parsed_defaults (dsn main_dbConfig))) = None \<and>
   Pool_Ping unreachable_lib 0 = Some (GoError ''connection refused'') \<and>
   call_Pool_Close 0 \<notin> set (calls fresh_process) \<and>
   fst (NewPg unreachable_lib main_dbConfig \<lparr>ConnString = dsn main_dbConfig\<rparr> fresh_process) =
     Returned (None, Some (GoError ''connection refused'')) \<and>
   pools (snd (NewPg unreachable_lib main_dbConfig \<lparr>ConnString = dsn main_dbConfig\<rparr>
                 fresh_process)) =
     [apply_pool_settings main_dbConfig (parsed_defaults (dsn main_dbConfig))] \<and>
   0 \<in> set (open_pools (snd (NewPg unreachable_lib main_dbConfig
                                \<lparr>ConnString = dsn main_dbConfig\<rparr> fresh_process)))"
  using NewPg_ping_failure_leaves_pool_open [of fresh_process unreachable_lib
      "\<lparr>ConnString = dsn main_dbConfig\<rparr>" "parsed_defaults (dsn main_dbConfig)" main_dbConfig
      "GoError ''connection refused''"]
  by (simp add: unreachable_lib_def healthy_lib_def fresh_process_def)

text \<open>
  The claim of C2 fails on the configuration of \<^verbatim>\<open>main\<close> with a database that does not
  answer the ping: \<^verbatim>\<open>NewPg\<close> returns the error, and the one pool of the process is open.
\<close>

theorem NewPg_ping_failure_counterexample:
  "fst (NewPg unreachable_lib main_dbConfig \<lparr>ConnString = dsn main_dbConfig\<rparr> fresh_process) =
     Returned (None, Some (GoError ''connection refused'')) \<and>
   open_pools (snd (NewPg unreachable_lib main_dbConfig \<lparr>ConnString = dsn main_dbConfig\<rparr>
                      fresh_process)) = [0]"
  by (simp add: unreachable_first_call open_pools_def)

text \<open>
  C3, as amended. The claim: a configuration with min above max, or with an empty host,
  port, user name or password, makes Create fail with a ConfigError, and an unreachable
  target or a failed ping with a ConnectionError. \<^verbatim>\<open>NewPg\<close> checks none of the
  constraints and classifies no error. On a first call, whatever the configuration: it
  returns the pool when \<^verbatim>\<open>pgxpool.ParseConfig\<close> accepts the connection string, the pool is
  constructed and the ping succeeds; it returns nil and the error of
  \<^verbatim>\<open>pgxpool.ParseConfig\<close>, as it is, when that fails; it returns nil and the error of the
  ping, as it is, when that fails.
\<close>

theorem NewPg_checks_nothing:
  assumes "\<not> pgOnce s"
  shows "(pgxpool_ParseConfig l (ConnString pc) = Inr parsed \<and>
          pgxpool_NewWithConfig l (apply_pool_settings d parsed) = None \<and>
          Pool_Ping l (length (pools s)) = None \<longrightarrow>
            fst (NewPg l d pc s) = Returned (Some (length (pools s)), None)) \<and>
         (pgxpool_ParseConfig l (ConnString pc) = Inl err \<longrightarrow>
            fst (NewPg l d pc s) = Returned (None, Some err)) \<and>
         (pgxpool_ParseConfig l (ConnString pc) = Inr parsed \<and>
          pgxpool_NewWithConfig l (apply_pool_settings d parsed) = None \<and>
          Pool_Ping l (length (pools s)) = Some err \<longrightarrow>
            fst (NewPg l d pc s) = Returned (None, Some err))"
  using assms by (simp add: NewPg_ping_ok NewPg_parse_fails NewPg_ping_fails)

theorem NewPg_checks_nothing_witness:
  "\<not> pgOnce fresh_process \<and>
   fst (NewPg healthy_lib inverted_dbConfig \<lparr>ConnString = dsn inverted_dbConfig\<rparr>
          fresh_process) = Returned (Some 0, None) \<and>
   fst (NewPg rejecting_lib main_dbConfig \<lparr>ConnString = dsn main_dbConfig\<rparr> fresh_process) =
     Returned (None, Some (GoError ''cannot parse'')) \<and>
   fst (NewPg unreachable_lib main_dbConfig \<lparr>ConnString = dsn main_dbConfig\<rparr> fresh_process) =
     Returned (None, Some (GoError ''connection refused''))"
  using
    NewPg_checks_nothing [of fresh_process healthy_lib "\<lparr>ConnString = dsn inverted_dbConfig\<rparr>"
      "parsed_defaults (dsn inverted_dbConfig)" inverted_dbConfig]
    NewPg_checks_nothing [of fresh_process rejecting_lib "\<lparr>ConnString = dsn main_dbConfig\<rparr>"
      _ main_dbConfig "GoError ''cannot parse''"]
    NewPg_checks_nothing [of fresh_process unreachable_lib "\<lparr>ConnString = dsn main_dbConfig\<rparr>"
      "parsed_defaults (dsn main_dbConfig)" main_dbConfig "GoError ''connection refused''"]
  by (simp add: rejecting_lib_def unreachable_lib_def healthy_lib_def fresh_process_def)

text \<open>
  The claim of C3 fails on a configuration with 5 minimum and 2 maximum connections and
  a database that answers: \<^verbatim>\<open>WithPgxConfig\<close> returns, and \<^verbatim>\<open>NewPg\<close> returns the pool and no
  error.
\<close>

theorem NewPg_min_above_max_counterexample:
  "sint (MaxConns inverted_dbConfig) < sint (MinConns inverted_dbConfig) \<and>
   WithPgxConfig healthy_lib inverted_dbConfig =
     Returned \<lparr>ConnString = dsn inverted_dbConfig\<rparr> \<and>
   fst (NewPg healthy_lib inverted_dbConfig \<lparr>ConnString = dsn inverted_dbConfig\<rparr>
          fresh_process) = Returned (Some 0, None)"
  by (simp add: inverted_dbConfig_def main_dbConfig_def WithPgxConfig_def TrimSpace_dsn
      healthy_first_call)
     (simp add: healthy_lib_def)

text \<open>
  C4. Called as \<^verbatim>\<open>main\<close> calls it, with the connection configuration \<^verbatim>\<open>WithPgxConfig\<close>
  made of the same \<^verbatim>\<open>DBConfig\<close>, a first \<^verbatim>\<open>NewPg\<close> hands \<^verbatim>\<open>pgxpool.ParseConfig\<close> the
  connection string with user name, password, database name, host and port of the
  \<^verbatim>\<open>DBConfig\<close>, and hands \<^verbatim>\<open>pgxpool.NewWithConfig\<close> the parsed configuration with
  \<^verbatim>\<open>MaxConns\<close>, \<^verbatim>\<open>MinConns\<close>, \<^verbatim>\<open>MaxConnLifetime\<close>, \<^verbatim>\<open>MaxConnIdleTime\<close> and
  \<^verbatim>\<open>HealthCheckPeriod\<close> set to the values of the \<^verbatim>\<open>DBConfig\<close>, unchanged, and nothing
  else changed.
\<close>

theorem NewPg_translates_DBConfig:
  assumes "WithPgxConfig l d = Returned pc"
    and "\<not> pgOnce s"
    and "pgxpool_ParseConfig l (ConnString pc) = Inr parsed"
  shows "\<exists>config rest.
           calls (snd (NewPg l d pc s)) =
             calls s @
             call_pgxpool_ParseConfig
               (''user='' @ UserName d @ '' password='' @ Password d @ '' dbname='' @ DBName d @
                '' host='' @ Host d @ '' port='' @ format_d (sint (Port d))) #
             call_pgxpool_NewWithConfig config # rest \<and>
           Config_ConnConfig config = Config_ConnConfig parsed \<and>
           Config_MaxConns config = MaxConns d \<and>
           Config_MinConns config = MinConns d \<and>
           Config_MaxConnLifetime config = MaxConnLifeTime d \<and>
           Config_MaxConnIdleTime config = MaxConnIdleTime d \<and>
           Config_HealthCheckPeriod config = HealthCheckPeriod d"
proof -
  have cs: "ConnString pc = dsn d"
    using assms(1) by (rule WithPgxConfig_Returned)
  obtain rest where
    "calls (snd (NewPg l d pc s)) =
       calls s @ call_pgxpool_ParseConfig (ConnString pc) #
         call_pgxpool_NewWithConfig (apply_pool_settings d parsed) # rest"
    using NewPg_calls_fresh [OF assms(2,3)] by blast
  then show ?thesis
    by (intro exI [of _ "apply_pool_settings d parsed"] exI [of _ rest])
       (simp add: cs dsn_def apply_pool_settings_def)
qed

theorem NewPg_translates_DBConfig_witness:
  "WithPgxConfig healthy_lib main_dbConfig = Returned \<lparr>ConnString = dsn main_dbConfig\<rparr> \<and>
   \<not> pgOnce fresh_process \<and>
   pgxpool_ParseConfig healthy_lib (dsn main_dbConfig) =
     Inr (parsed_defaults (dsn main_dbConfig)) \<and>
   dsn main_dbConfig = ''user=postgres password=secret dbname=app host=localhost port=5432'' \<and>
   (\<exists>config rest.
      calls (snd (NewPg healthy_lib main_dbConfig \<lparr>ConnString = dsn main_dbConfig\<rparr>
                    fresh_process)) =
        call_pgxpool_ParseConfig (dsn main_dbConfig) #
        call_pgxpool_NewWithConfig config # rest \<and>
      Config_ConnConfig config = \<lparr>ConnString = dsn main_dbConfig\<rparr> \<and>
      Config_MaxConns config = 10 \<and>
      Config_MinConns config = 2 \<and>
      Config_MaxConnLifetime config = 1800000000000 \<and>
      Config_MaxConnIdleTime config = 600000000000 \<and>
      Config_HealthCheckPeriod config = 120000000000)"
proof -
  have h1: "WithPgxConfig healthy_lib main_dbConfig = Returned \<lparr>ConnString = dsn main_dbConfig\<rparr>"
    by (simp add: WithPgxConfig_def TrimSpace_dsn healthy_lib_def)
  have h2: "\<not> pgOnce fresh_process"
    by (simp add: fresh_process_def)
  have h3: "pgxpool_ParseConfig healthy_lib (ConnString \<lparr>ConnString = dsn main_dbConfig\<rparr>) =
      Inr (parsed_defaults (dsn main_dbConfig))"
    by (simp add: healthy_lib_def)
  have port: "format_d (sint (Port main_dbConfig)) = ''5432''"
    by (simp add: main_dbConfig_def format_d_def digits10.simps)
  have literal: "dsn main_dbConfig =
      ''user=postgres password=secret dbname=app host=localhost port=5432''"
    by (simp add: dsn_def port) (simp add: main_dbConfig_def)
  have folded: "''user='' @ UserName main_dbConfig @ '' password='' @ Password main_dbConfig @
      '' dbname='' @ DBName main_dbConfig @ '' host='' @ Host main_dbConfig @ '' port='' @
      format_d (sint (Port main_dbConfig)) = dsn main_dbConfig"
    by (simp add: dsn_def)
  have vals: "MaxConns main_dbConfig = 10" "MinConns main_dbConfig = 2"
    "MaxConnLifeTime main_dbConfig = 1800000000000"
    "MaxConnIdleTime main_dbConfig = 600000000000"
    "HealthCheckPeriod main_dbConfig = 120000000000"
    "Config_ConnConfig (parsed_defaults (dsn main_dbConfig)) = \<lparr>ConnString = dsn main_dbConfig\<rparr>"
    "calls fresh_process = []"
    by (simp_all add: main_dbConfig_def parsed_defaults_def fresh_process_def)
  note inst = NewPg_translates_DBConfig [OF h1 h2 h3, unfolded folded vals append_Nil]
  from h3 have h3': "pgxpool_ParseConfig healthy_lib (dsn main_dbConfig) =
      Inr (parsed_defaults (dsn main_dbConfig))"
    by simp
  from h1 h2 h3' literal inst show ?thesis by (intro conjI)
qed

subsection \<open>LoadConfig\<close>

text \<open>
  C9. \<^verbatim>\<open>LoadConfig\<close> returns exactly one of a configuration and an error: when reading or
  unmarshalling fails the pointer is nil and the error is not, otherwise the pointer is
  not nil and the error is.
\<close>

theorem LoadConfig_exactly_one:
  "(fst (LoadConfig l configFile) = None) = (snd (LoadConfig l configFile) \<noteq> None) \<and>
   (snd (LoadConfig l configFile) = None) =
     (viper_ReadInConfig l configFile = None \<and> \<not> isl (viper_Unmarshal l configFile))"
  by (simp add: LoadConfig_def split: option.split sum.split)

subsection \<open>DoExplicitConnectionOperations\<close>

lemma leases_held_log_users [simp]:
  "leases_held held (map log_user users @ t) = leases_held held t"
  by (induction users) (simp_all add: log_user_def)

lemma count_Release_log_users [simp]:
  "count_list (map log_user users) (call_Conn_Release conn) = 0"
  by (induction users) (simp_all add: log_user_def)

text \<open>
  C8. On every path through \<^verbatim>\<open>DoExplicitConnectionOperations\<close>, whatever the library
  answers, no lease is held when the function ends. When \<^verbatim>\<open>Acquire\<close> returned a lease
  the calls of the function start with that \<^verbatim>\<open>Acquire\<close>, end with the \<^verbatim>\<open>Release\<close> of the
  lease, and release it exactly once; when \<^verbatim>\<open>Acquire\<close> failed there is nothing to release
  and the failed \<^verbatim>\<open>Acquire\<close> is the only call.
\<close>

theorem DoExplicitConnectionOperations_releases_lease:
  "leases_held [] (snd (DoExplicitConnectionOperations l app)) = [] \<and>
   (case DBClient app of
      None \<Rightarrow> snd (DoExplicitConnectionOperations l app) = []
    | Some pool \<Rightarrow>
        (case Pool_Acquire l pool of
           Inl err \<Rightarrow> snd (DoExplicitConnectionOperations l app) = [call_Pool_Acquire pool None]
         | Inr conn \<Rightarrow>
             hd (snd (DoExplicitConnectionOperations l app)) = call_Pool_Acquire pool (Some conn) \<and>
             last (snd (DoExplicitConnectionOperations l app)) = call_Conn_Release conn \<and>
             count_list (snd (DoExplicitConnectionOperations l app)) (call_Conn_Release conn) = 1))"
  by (simp add: DoExplicitConnectionOperations_def Let_def
           split: option.split sum.split)

subsection \<open>monitorPoolStats\<close>

text \<open>
  C7. \<^verbatim>\<open>monitorPoolStats\<close> on a pool returns (it has no error to return), and all it does
  to the pool is one \<^verbatim>\<open>Stat()\<close>: it logs the four counters of that one value and asks for
  no connection. In the pool of the specification this leaves every pool as it was, also
  one where an Acquire would wait.
\<close>

theorem monitorPoolStats_only_reads:
  assumes "DBClient app = Some pool"
  shows "fst (monitorPoolStats l app) = Returned () \<and>
         snd (monitorPoolStats l app) =
           [call_Pool_Stat pool,
            slog_Info ''Pool stats''
              [slog_Int ''total_connections'' (sint (TotalConns (Pool_Stat l pool))),
               slog_Int ''acquired_connections'' (sint (AcquiredConns (Pool_Stat l pool))),
               slog_Int ''idle_connections'' (sint (IdleConns (Pool_Stat l pool))),
               slog_Int ''max_connections'' (sint (Stat_MaxConns (Pool_Stat l pool)))]] \<and>
         pool_ops (snd (monitorPoolStats l app)) = [op_Stat] \<and>
         foldl spec_step p (map (Pair connects) (pool_ops (snd (monitorPoolStats l app)))) = p"
  using assms by (simp add: monitorPoolStats_def Let_def)

theorem monitorPoolStats_witness:
  "DBClient main_App = Some 0 \<and>
   spec_Acquire True exhausted_pool = Inl TimeoutError \<and>
   fst (monitorPoolStats healthy_lib main_App) = Returned () \<and>
   snd (monitorPoolStats healthy_lib main_App) =
     [call_Pool_Stat 0,
      slog_Info ''Pool stats''
        [slog_Int ''total_connections'' 2, slog_Int ''acquired_connections'' 0,
         slog_Int ''idle_connections'' 2, slog_Int ''max_connections'' 10]] \<and>
   pool_ops (snd (monitorPoolStats healthy_lib main_App)) = [op_Stat] \<and>
   foldl spec_step exhausted_pool
     (map (Pair True) (pool_ops (snd (monitorPoolStats healthy_lib main_App)))) = exhausted_pool"
proof -
  have app: "DBClient main_App = Some 0"
    by (simp add: main_App_def)
  have waits: "spec_Acquire True exhausted_pool = Inl TimeoutError"
    by (simp add: spec_Acquire_def exhausted_pool_def)
  have stat: "Pool_Stat healthy_lib 0 =
      \<lparr>TotalConns = 2, AcquiredConns = 0, IdleConns = 2, Stat_MaxConns = 10\<rparr>"
    by (simp add: healthy_lib_def)
  from monitorPoolStats_only_reads [OF app, of healthy_lib exhausted_pool True] app waits
  show ?thesis by (simp add: stat)
qed

subsection \<open>The two connection strings\<close>
















end
